theory Spec2Isabelle
  imports Main "HOL-Library.Word"
begin

section \<open>IO Stream UART: the stream object and its inline wrappers\<close>

text \<open>
  The header \<^verbatim>\<open>sl_iostream_uart.h\<close> declares the UART stream object, the UART
  context and a set of inline functions that forward to function pointers stored in the
  stream object. The functions behind the pointers are installed by the driver's
  initialisation and are not part of the header, so they are parameters of this
  development: a table that gives, for each code address, the function placed there.
\<close>

subsection \<open>Constants\<close>

text \<open>The four object-like macros of the header. In C they are constants of type int.\<close>

definition uartFlowControlNone :: int where
  "uartFlowControlNone = 0"

definition uartFlowControlSoftware :: int where
  "uartFlowControlSoftware = 0xFFFF"

definition UARTXON :: int where
  "UARTXON = 0x11"

definition UARTXOFF :: int where
  "UARTXOFF = 0x13"

subsection \<open>Data types\<close>

text \<open>
  Pointers are addresses. A data pointer (\<^verbatim>\<open>void *\<close>, \<^verbatim>\<open>uint8_t *\<close>) and a function
  pointer are both natural numbers; no claim depends on the width of an address.
  \<^verbatim>\<open>sl_status_t\<close> is a 32-bit status code.
\<close>

type_synonym addr = nat
type_synonym fnptr = nat
type_synonym sl_status_t = "32 word"
type_synonym uint8_t = "8 word"

text \<open>The three outcomes documented for \<^verbatim>\<open>sl_iostream_uart_sleep_on_isr_exit\<close>.\<close>

datatype sl_power_manager_on_isr_exit_t =
  SL_POWER_MANAGER_IGNORE | SL_POWER_MANAGER_SLEEP | SL_POWER_MANAGER_WAKEUP

text \<open>
  \<^verbatim>\<open>sl_iostream_uart_context_t\<close>. The scalar fields are kept under their names. The DMA
  context, the three function pointers (\<^verbatim>\<open>tx\<close>, \<^verbatim>\<open>tx_completed\<close>, \<^verbatim>\<open>deinit\<close>), the
  energy modes and the kernel objects have types declared in other headers and are left
  out; the fields guarded by the power manager and the kernel are all present.
\<close>

record sl_iostream_uart_context_t =
  rx_buffer :: addr
  rx_buffer_len :: nat
  rx_read_ptr :: addr
  lf_to_crlf :: bool
  sw_flow_control :: bool
  ctrl_char_scan_ptr :: addr
  xon :: bool
  remote_xon :: bool
  tx_idle :: bool
  em_req_added :: bool
  block :: bool
  sleep :: sl_power_manager_on_isr_exit_t

text \<open>
  \<^verbatim>\<open>sl_iostream_t\<close> is declared in \<^verbatim>\<open>sl_iostream.h\<close>; the wrappers use its
  \<^verbatim>\<open>context\<close> field only.
\<close>

record sl_iostream_t =
  "context" :: addr

text \<open>
  \<^verbatim>\<open>sl_iostream_uart_t\<close>: the stream and eight function pointers. The record has the
  fields of every configuration (power manager present or not, kernel present or not).
\<close>

record sl_iostream_uart_t =
  stream :: sl_iostream_t
  deinit :: fnptr
  set_auto_cr_lf :: fnptr
  get_auto_cr_lf :: fnptr
  set_rx_energy_mode_restriction :: fnptr
  get_rx_energy_mode_restriction :: fnptr
  sleep_on_isr_exit :: fnptr
  set_read_block :: fnptr
  get_read_block :: fnptr

subsection \<open>Memory, code and calls\<close>

text \<open>
  The memory holds the stream objects by address, and whatever else the driver keeps
  (\<open>'d\<close>). A function called through a pointer may change all of it, the stream objects
  included.
\<close>

record 'd memory =
  handles :: "addr \<rightharpoonup> sl_iostream_uart_t"
  driver :: 'd

text \<open>
  The code: for each of the four function-pointer types of the stream object, the
  functions by address. An address with no function of that type is not callable.
\<close>

record 'd code =
  fn_status :: "fnptr \<rightharpoonup> (addr \<Rightarrow> 'd memory \<Rightarrow> sl_status_t \<times> 'd memory)"
  fn_set :: "fnptr \<rightharpoonup> (addr \<Rightarrow> bool \<Rightarrow> 'd memory \<Rightarrow> 'd memory)"
  fn_get :: "fnptr \<rightharpoonup> (addr \<Rightarrow> 'd memory \<Rightarrow> bool \<times> 'd memory)"
  fn_isr_exit :: "fnptr \<rightharpoonup> (addr \<Rightarrow> 'd memory \<Rightarrow> sl_power_manager_on_isr_exit_t \<times> 'd memory)"

text \<open>
  A call through a function pointer, as an observer sees it: the address called, the
  pointer argument and, for the two-argument type, the flag.
\<close>

datatype call = Call_ptr fnptr addr | Call_ptr_bool fnptr addr bool

text \<open>The state a wrapper runs in: the memory and the calls made so far, oldest first.\<close>

record 'd machine =
  mem :: "'d memory"
  calls :: "call list"

text \<open>\<^verbatim>\<open>iostream_uart->field\<close>: the stream object at the address, if there is one.\<close>

definition load_uart :: "'d machine \<Rightarrow> addr \<Rightarrow> sl_iostream_uart_t option" where
  "load_uart s p = handles (mem s) p"

text \<open>
  The four kinds of indirect call. Each records the call, runs the function found at
  the address on the memory and hands back its result; a call to an address that holds
  no function of the type has no result.
\<close>

definition invoke_status ::
  "'d code \<Rightarrow> fnptr \<Rightarrow> addr \<Rightarrow> 'd machine \<Rightarrow> (sl_status_t \<times> 'd machine) option" where
  "invoke_status c f a s =
     (case fn_status c f of
        None \<Rightarrow> None
      | Some g \<Rightarrow>
          Some (fst (g a (mem s)),
                s\<lparr>mem := snd (g a (mem s)), calls := calls s @ [Call_ptr f a]\<rparr>))"

definition invoke_set ::
  "'d code \<Rightarrow> fnptr \<Rightarrow> addr \<Rightarrow> bool \<Rightarrow> 'd machine \<Rightarrow> 'd machine option" where
  "invoke_set c f a b s =
     (case fn_set c f of
        None \<Rightarrow> None
      | Some g \<Rightarrow> Some (s\<lparr>mem := g a b (mem s), calls := calls s @ [Call_ptr_bool f a b]\<rparr>))"

definition invoke_get ::
  "'d code \<Rightarrow> fnptr \<Rightarrow> addr \<Rightarrow> 'd machine \<Rightarrow> (bool \<times> 'd machine) option" where
  "invoke_get c f a s =
     (case fn_get c f of
        None \<Rightarrow> None
      | Some g \<Rightarrow>
          Some (fst (g a (mem s)),
                s\<lparr>mem := snd (g a (mem s)), calls := calls s @ [Call_ptr f a]\<rparr>))"

definition invoke_isr_exit ::
  "'d code \<Rightarrow> fnptr \<Rightarrow> addr \<Rightarrow> 'd machine \<Rightarrow>
     (sl_power_manager_on_isr_exit_t \<times> 'd machine) option" where
  "invoke_isr_exit c f a s =
     (case fn_isr_exit c f of
        None \<Rightarrow> None
      | Some g \<Rightarrow>
          Some (fst (g a (mem s)),
                s\<lparr>mem := snd (g a (mem s)), calls := calls s @ [Call_ptr f a]\<rparr>))"

subsection \<open>The inline functions of the header\<close>

text \<open>
  \<^verbatim>\<open>sl_iostream_uart_deinit\<close>. The flag \<open>power_manager_present\<close> stands for
  \<^verbatim>\<open>SL_CATALOG_POWER_MANAGER_PRESENT\<close>. With it, the function first calls
  \<^verbatim>\<open>iostream_uart->set_rx_energy_mode_restriction(iostream_uart->stream.context, false)\<close>;
  then, in both configurations, it returns \<^verbatim>\<open>iostream_uart->deinit(iostream_uart)\<close>.
  The second statement reads the stream object again, after the first call.
\<close>

definition sl_iostream_uart_deinit ::
  "bool \<Rightarrow> 'd code \<Rightarrow> addr \<Rightarrow> 'd machine \<Rightarrow> (sl_status_t \<times> 'd machine) option" where
  "sl_iostream_uart_deinit power_manager_present c iostream_uart s =
     (case (if power_manager_present
            then (case load_uart s iostream_uart of
                    None \<Rightarrow> None
                  | Some h \<Rightarrow>
                      invoke_set c (set_rx_energy_mode_restriction h) (context (stream h)) False s)
            else Some s) of
        None \<Rightarrow> None
      | Some s1 \<Rightarrow>
          (case load_uart s1 iostream_uart of
             None \<Rightarrow> None
           | Some h \<Rightarrow> invoke_status c (deinit h) iostream_uart s1))"

definition sl_iostream_uart_set_auto_cr_lf ::
  "'d code \<Rightarrow> addr \<Rightarrow> bool \<Rightarrow> 'd machine \<Rightarrow> 'd machine option" where
  "sl_iostream_uart_set_auto_cr_lf c iostream_uart on s =
     (case load_uart s iostream_uart of
        None \<Rightarrow> None
      | Some h \<Rightarrow> invoke_set c (set_auto_cr_lf h) (context (stream h)) on s)"

definition sl_iostream_uart_get_auto_cr_lf ::
  "'d code \<Rightarrow> addr \<Rightarrow> 'd machine \<Rightarrow> (bool \<times> 'd machine) option" where
  "sl_iostream_uart_get_auto_cr_lf c iostream_uart s =
     (case load_uart s iostream_uart of
        None \<Rightarrow> None
      | Some h \<Rightarrow> invoke_get c (get_auto_cr_lf h) (context (stream h)) s)"

definition sl_iostream_uart_set_rx_energy_mode_restriction ::
  "'d code \<Rightarrow> addr \<Rightarrow> bool \<Rightarrow> 'd machine \<Rightarrow> 'd machine option" where
  "sl_iostream_uart_set_rx_energy_mode_restriction c iostream_uart on s =
     (case load_uart s iostream_uart of
        None \<Rightarrow> None
      | Some h \<Rightarrow> invoke_set c (set_rx_energy_mode_restriction h) (context (stream h)) on s)"

definition sl_iostream_uart_get_rx_energy_mode_restriction ::
  "'d code \<Rightarrow> addr \<Rightarrow> 'd machine \<Rightarrow> (bool \<times> 'd machine) option" where
  "sl_iostream_uart_get_rx_energy_mode_restriction c iostream_uart s =
     (case load_uart s iostream_uart of
        None \<Rightarrow> None
      | Some h \<Rightarrow> invoke_get c (get_rx_energy_mode_restriction h) (context (stream h)) s)"

definition sl_iostream_uart_set_read_block ::
  "'d code \<Rightarrow> addr \<Rightarrow> bool \<Rightarrow> 'd machine \<Rightarrow> 'd machine option" where
  "sl_iostream_uart_set_read_block c iostream_uart on s =
     (case load_uart s iostream_uart of
        None \<Rightarrow> None
      | Some h \<Rightarrow> invoke_set c (set_read_block h) (context (stream h)) on s)"

definition sl_iostream_uart_get_read_block ::
  "'d code \<Rightarrow> addr \<Rightarrow> 'd machine \<Rightarrow> (bool \<times> 'd machine) option" where
  "sl_iostream_uart_get_read_block c iostream_uart s =
     (case load_uart s iostream_uart of
        None \<Rightarrow> None
      | Some h \<Rightarrow> invoke_get c (get_read_block h) (context (stream h)) s)"

definition sl_iostream_uart_sleep_on_isr_exit ::
  "'d code \<Rightarrow> addr \<Rightarrow> 'd machine \<Rightarrow> (sl_power_manager_on_isr_exit_t \<times> 'd machine) option" where
  "sl_iostream_uart_sleep_on_isr_exit c iostream_uart s =
     (case load_uart s iostream_uart of
        None \<Rightarrow> None
      | Some h \<Rightarrow> invoke_isr_exit c (sleep_on_isr_exit h) (context (stream h)) s)"

subsection \<open>The functions behind the pointers\<close>

text \<open>
  The functions the driver installs in a stream object are not in the header. The ones
  below follow the spec's description of each and keep their flag in the context field of
  that purpose; together they are a concrete function table at which the theorems about
  the wrappers are instantiated. The driver's part of the memory is the contexts by
  address.
\<close>

type_synonym uart_driver = "addr \<rightharpoonup> sl_iostream_uart_context_t"

text \<open>
  Modelled from the spec: the functions below take the context pointer the wrappers pass
  and work on the context found there. A function given an address that holds no context
  leaves the memory as it is.
\<close>

definition update_context ::
  "addr \<Rightarrow> (sl_iostream_uart_context_t \<Rightarrow> sl_iostream_uart_context_t) \<Rightarrow>
     uart_driver memory \<Rightarrow> uart_driver memory" where
  "update_context a f m =
     (case driver m a of None \<Rightarrow> m | Some x \<Rightarrow> m\<lparr>driver := (driver m)(a \<mapsto> f x)\<rparr>)"

text \<open>
  Modelled from the spec: the function behind \<^verbatim>\<open>set_auto_cr_lf\<close> is not in the header.
  It toggles whether outbound line feeds are expanded: it stores the flag in
  \<^verbatim>\<open>lf_to_crlf\<close>.
\<close>

definition uart_set_auto_cr_lf :: "addr \<Rightarrow> bool \<Rightarrow> uart_driver memory \<Rightarrow> uart_driver memory" where
  "uart_set_auto_cr_lf a on = update_context a (\<lambda>x. x\<lparr>lf_to_crlf := on\<rparr>)"

text \<open>
  Modelled from the spec: the function behind \<^verbatim>\<open>get_auto_cr_lf\<close> is not in the header.
  It returns the current mode.
\<close>

definition uart_get_auto_cr_lf :: "addr \<Rightarrow> uart_driver memory \<Rightarrow> bool \<times> uart_driver memory" where
  "uart_get_auto_cr_lf a m =
     (case driver m a of None \<Rightarrow> (False, m) | Some x \<Rightarrow> (lf_to_crlf x, m))"

text \<open>
  Modelled from the spec: the function behind \<^verbatim>\<open>set_rx_energy_mode_restriction\<close> is
  not in the header. It asserts or clears the veto on the sleep states that stop the
  receiver; \<^verbatim>\<open>em_req_added\<close> records whether the veto is asserted.
\<close>

definition uart_set_rx_energy_mode_restriction ::
  "addr \<Rightarrow> bool \<Rightarrow> uart_driver memory \<Rightarrow> uart_driver memory" where
  "uart_set_rx_energy_mode_restriction a on = update_context a (\<lambda>x. x\<lparr>em_req_added := on\<rparr>)"

text \<open>
  Modelled from the spec: the function behind \<^verbatim>\<open>get_rx_energy_mode_restriction\<close> is
  not in the header. It returns whether the veto is asserted.
\<close>

definition uart_get_rx_energy_mode_restriction ::
  "addr \<Rightarrow> uart_driver memory \<Rightarrow> bool \<times> uart_driver memory" where
  "uart_get_rx_energy_mode_restriction a m =
     (case driver m a of None \<Rightarrow> (False, m) | Some x \<Rightarrow> (em_req_added x, m))"

text \<open>
  Modelled from the spec: the function behind \<^verbatim>\<open>set_read_block\<close> is not in the header.
  It toggles the blocking mode of read, kept in \<^verbatim>\<open>block\<close>.
\<close>

definition uart_set_read_block :: "addr \<Rightarrow> bool \<Rightarrow> uart_driver memory \<Rightarrow> uart_driver memory" where
  "uart_set_read_block a on = update_context a (\<lambda>x. x\<lparr>block := on\<rparr>)"

text \<open>
  Modelled from the spec: the function behind \<^verbatim>\<open>get_read_block\<close> is not in the header.
  It returns the blocking mode.
\<close>

definition uart_get_read_block :: "addr \<Rightarrow> uart_driver memory \<Rightarrow> bool \<times> uart_driver memory" where
  "uart_get_read_block a m =
     (case driver m a of None \<Rightarrow> (False, m) | Some x \<Rightarrow> (block x, m))"

text \<open>
  Modelled from the spec: the function behind \<^verbatim>\<open>sleep_on_isr_exit\<close> is not in the
  header. It reports one of the three outcomes; here, the one held in \<^verbatim>\<open>sleep\<close>.
\<close>

definition uart_sleep_on_isr_exit ::
  "addr \<Rightarrow> uart_driver memory \<Rightarrow> sl_power_manager_on_isr_exit_t \<times> uart_driver memory" where
  "uart_sleep_on_isr_exit a m =
     (case driver m a of None \<Rightarrow> (SL_POWER_MANAGER_IGNORE, m) | Some x \<Rightarrow> (sleep x, m))"

text \<open>
  Modelled from the spec: the function behind \<^verbatim>\<open>deinit\<close> is not in the header. It
  releases the DMA channel and returns a status code. The channel is hardware that this
  memory does not hold, so the function changes nothing here and reports status 0.
\<close>

definition uart_deinit :: "addr \<Rightarrow> uart_driver memory \<Rightarrow> sl_status_t \<times> uart_driver memory" where
  "uart_deinit a m = (0, m)"

text \<open>The function table: where each of the functions above is placed.\<close>

definition uart_code :: "uart_driver code" where
  "uart_code =
     \<lparr>fn_status = [0x1000 \<mapsto> uart_deinit],
      fn_set = [0x1010 \<mapsto> uart_set_auto_cr_lf,
                0x1030 \<mapsto> uart_set_rx_energy_mode_restriction,
                0x1050 \<mapsto> uart_set_read_block],
      fn_get = [0x1020 \<mapsto> uart_get_auto_cr_lf,
                0x1040 \<mapsto> uart_get_rx_energy_mode_restriction,
                0x1060 \<mapsto> uart_get_read_block],
      fn_isr_exit = [0x1070 \<mapsto> uart_sleep_on_isr_exit]\<rparr>"

text \<open>
  One stream object at address 0x2000, its context at 0x2100 with a 16-byte receive
  buffer at 0x3000, the restriction asserted and automatic conversion off.
\<close>

definition vcom_context :: sl_iostream_uart_context_t where
  "vcom_context =
     \<lparr>rx_buffer = 0x3000, rx_buffer_len = 16, rx_read_ptr = 0x3000,
      lf_to_crlf = False, sw_flow_control = False, ctrl_char_scan_ptr = 0x3000,
      xon = True, remote_xon = True, tx_idle = True, em_req_added = True,
      block = False, sleep = SL_POWER_MANAGER_IGNORE\<rparr>"

definition vcom_handle :: sl_iostream_uart_t where
  "vcom_handle =
     \<lparr>stream = \<lparr>context = 0x2100\<rparr>, deinit = 0x1000,
      set_auto_cr_lf = 0x1010, get_auto_cr_lf = 0x1020,
      set_rx_energy_mode_restriction = 0x1030, get_rx_energy_mode_restriction = 0x1040,
      sleep_on_isr_exit = 0x1070, set_read_block = 0x1050, get_read_block = 0x1060\<rparr>"

definition vcom_machine :: "uart_driver machine" where
  "vcom_machine =
     \<lparr>mem = \<lparr>handles = [0x2000 \<mapsto> vcom_handle], driver = [0x2100 \<mapsto> vcom_context]\<rparr>,
      calls = []\<rparr>"

text \<open>Whether the energy-mode restriction of the context at an address is asserted.\<close>

definition restriction_asserted :: "addr \<Rightarrow> uart_driver memory \<Rightarrow> bool" where
  "restriction_asserted a m = (case driver m a of None \<Rightarrow> False | Some x \<Rightarrow> em_req_added x)"

section \<open>The driver behind the stream: receive ring buffer and transmit path\<close>

text \<open>
  Modelled from the spec: the driver implementation (read, write and the DMA set-up) is
  not in the header, which declares the context only. One UART is its context, the
  memory its receive buffer lies in, the DMA engine's current fill position (the address
  the next received byte goes to) and the bytes handed to the hardware transmitter so far,
  oldest first.
\<close>

record uart_device =
  uart_context :: sl_iostream_uart_context_t
  ram :: "addr \<Rightarrow> uint8_t"
  dma_dst :: addr
  tx_wire :: "uint8_t list"

text \<open>
  Modelled from the spec: the DMA engine deposits each incoming byte into the circular
  receive buffer through two chained descriptors, one that receives into the remaining
  space up to the buffer end and one that wraps back to the buffer start. A deposit
  stores the byte at the fill position and moves the position on by one, back to
  \<^verbatim>\<open>rx_buffer\<close> from the last address of the buffer.
\<close>

definition dma_deposit :: "uint8_t \<Rightarrow> uart_device \<Rightarrow> uart_device" where
  "dma_deposit b d =
     d\<lparr>ram := (ram d)(dma_dst d := b),
       dma_dst := (if dma_dst d + 1 = rx_buffer (uart_context d) + rx_buffer_len (uart_context d)
                   then rx_buffer (uart_context d) else dma_dst d + 1)\<rparr>"

text \<open>Modelled from the spec: the bytes of a reception are deposited in arrival order.\<close>

fun dma_receive :: "uint8_t list \<Rightarrow> uart_device \<Rightarrow> uart_device" where
  "dma_receive [] d = d"
| "dma_receive (b # bs) d = dma_receive bs (dma_deposit b d)"

text \<open>
  Modelled from the spec: the fill level is the number of bytes from the read cursor
  forward to the fill position, around the end of the buffer if the position has wrapped.
\<close>

definition rx_level :: "uart_device \<Rightarrow> nat" where
  "rx_level d =
     (if rx_read_ptr (uart_context d) \<le> dma_dst d
      then dma_dst d - rx_read_ptr (uart_context d)
      else rx_buffer_len (uart_context d) - (rx_read_ptr (uart_context d) - dma_dst d))"

text \<open>
  Modelled from the spec: the copy a read performs. It copies the bytes from the read
  cursor forward up to the DMA's current fill position, modulo wraparound (up to the
  buffer end and then on from the buffer start when the position is behind the cursor),
  then advances the cursor to that position.
\<close>

definition rx_copy :: "uart_device \<Rightarrow> uint8_t list \<times> uart_device" where
  "rx_copy d =
     (let c = uart_context d;
          bytes = (if rx_read_ptr c \<le> dma_dst d
                   then map (ram d) [rx_read_ptr c..<dma_dst d]
                   else map (ram d) [rx_read_ptr c..<rx_buffer c + rx_buffer_len c]
                        @ map (ram d) [rx_buffer c..<dma_dst d])
      in (bytes, d\<lparr>uart_context := c\<lparr>rx_read_ptr := dma_dst d\<rparr>\<rparr>))"

text \<open>
  Modelled from the spec: a read call. With blocking mode on (the context's \<^verbatim>\<open>block\<close>,
  a field of the builds with a kernel) and no byte available, the read suspends the
  caller until at least one byte is available: in that state it has no result. In every
  other case it returns at once with whatever is buffered, possibly nothing.
\<close>

definition uart_read :: "uart_device \<Rightarrow> (uint8_t list \<times> uart_device) option" where
  "uart_read d =
     (if block (uart_context d) \<and> rx_level d = 0 then None else Some (rx_copy d))"

text \<open>
  Modelled from the spec: a suspended read is woken when a byte arrives. Given the bytes
  that arrive from now on, in order, the read returns as soon as it has a result; while
  it is suspended each arriving byte is deposited by the DMA, and with no byte left to
  arrive it stays suspended.
\<close>

fun uart_read_wait :: "uint8_t list \<Rightarrow> uart_device \<Rightarrow> (uint8_t list \<times> uart_device) option" where
  "uart_read_wait [] d = uart_read d"
| "uart_read_wait (b # bs) d =
     (case uart_read d of
        Some r \<Rightarrow> Some r
      | None \<Rightarrow> uart_read_wait bs (dma_deposit b d))"

text \<open>
  Modelled from the spec: the ring buffer is circular, so the read cursor and the fill
  position both lie in the buffer, from \<^verbatim>\<open>rx_buffer\<close> up to but not including
  \<^verbatim>\<open>rx_buffer + rx_buffer_len\<close>.
\<close>

definition rx_wf :: "uart_device \<Rightarrow> bool" where
  "rx_wf d =
     (let c = uart_context d in
        rx_buffer c \<le> rx_read_ptr c \<and> rx_read_ptr c < rx_buffer c + rx_buffer_len c
        \<and> rx_buffer c \<le> dma_dst d \<and> dma_dst d < rx_buffer c + rx_buffer_len c)"

text \<open>The line feed and carriage return characters, \<^verbatim>\<open>'\n'\<close> and \<^verbatim>\<open>'\r'\<close>.\<close>

definition char_LF :: uint8_t where "char_LF = 0x0A"
definition char_CR :: uint8_t where "char_CR = 0x0D"

text \<open>Modelled from the spec: transmitting a byte writes it to the hardware transmitter.\<close>

definition uart_tx :: "uint8_t \<Rightarrow> uart_device \<Rightarrow> uart_device" where
  "uart_tx b d = d\<lparr>tx_wire := tx_wire d @ [b]\<rparr>"

text \<open>
  Modelled from the spec: a write sends its bytes in order; with automatic conversion on,
  an outbound line feed is expanded to carriage return then line feed before
  transmission.
\<close>

fun uart_write_loop :: "bool \<Rightarrow> uint8_t list \<Rightarrow> uart_device \<Rightarrow> uart_device" where
  "uart_write_loop crlf [] d = d"
| "uart_write_loop crlf (b # bs) d =
     uart_write_loop crlf bs (uart_tx b (if crlf \<and> b = char_LF then uart_tx char_CR d else d))"

text \<open>
  Modelled from the spec: the mode in force is the context's \<^verbatim>\<open>lf_to_crlf\<close>. With
  software flow control, \<^verbatim>\<open>remote_xon\<close> gates whether outbound bytes are written to the
  hardware; what a write does with its bytes while the peer has stopped transmission is
  not fixed by the spec, and the write has no result here.
\<close>

definition uart_write :: "uint8_t list \<Rightarrow> uart_device \<Rightarrow> uart_device option" where
  "uart_write bs d =
     (if sw_flow_control (uart_context d) \<and> \<not> remote_xon (uart_context d) then None
      else Some (uart_write_loop (lf_to_crlf (uart_context d)) bs d))"

text \<open>The expansion of a byte sequence: each line feed becomes carriage return, line feed.\<close>

fun expand_lf :: "uint8_t list \<Rightarrow> uint8_t list" where
  "expand_lf [] = []"
| "expand_lf (b # bs) = (if b = char_LF then [char_CR, char_LF] else [b]) @ expand_lf bs"

text \<open>
  A UART on the context of the stream object above: the read cursor and the fill position
  two bytes before the end of the 16-byte buffer, automatic conversion on, nothing sent.
\<close>

definition vcom_device :: uart_device where
  "vcom_device =
     \<lparr>uart_context = vcom_context\<lparr>rx_read_ptr := 0x300E, lf_to_crlf := True\<rparr>,
      ram = (\<lambda>a. 0), dma_dst = 0x300E, tx_wire = []\<rparr>"

text \<open>
  The UART on the context of the stream object above with the blocking mode set to a
  given flag: nothing buffered, nothing sent.
\<close>

definition vcom_uart :: "bool \<Rightarrow> uart_device" where
  "vcom_uart on =
     \<lparr>uart_context = vcom_context\<lparr>block := on\<rparr>,
      ram = (\<lambda>a. 0), dma_dst = 0x3000, tx_wire = []\<rparr>"

section \<open>Properties of the constants\<close>

text \<open>
  C10. The stop and resume characters of software flow control are the bytes 0x13
  (\<^verbatim>\<open>UARTXOFF\<close>) and 0x11 (\<^verbatim>\<open>UARTXON\<close>); the flow-control modes are 0 (none) and 0xFFFF
  (software). Both characters fit a \<^verbatim>\<open>uint8_t\<close> unchanged, and they differ.
\<close>

theorem flow_control_constants:
  "UARTXOFF = 0x13 \<and> UARTXON = 0x11
   \<and> uartFlowControlNone = 0 \<and> uartFlowControlSoftware = 0xFFFF
   \<and> (word_of_int UARTXOFF :: uint8_t) = 0x13 \<and> (word_of_int UARTXON :: uint8_t) = 0x11
   \<and> uint (word_of_int UARTXOFF :: uint8_t) = UARTXOFF
   \<and> uint (word_of_int UARTXON :: uint8_t) = UARTXON
   \<and> UARTXOFF \<noteq> UARTXON
   \<and> uartFlowControlSoftware = 2 ^ 16 - 1"
  by (simp add: UARTXOFF_def UARTXON_def uartFlowControlNone_def uartFlowControlSoftware_def)

section \<open>Properties of the inline wrappers\<close>

lemmas invoke_defs = invoke_status_def invoke_set_def invoke_get_def invoke_isr_exit_def

text \<open>Facts about the concrete function table and stream object.\<close>

lemma vcom_simps:
  "load_uart vcom_machine 0x2000 = Some vcom_handle"
  "fn_status uart_code (deinit vcom_handle) = Some uart_deinit"
  "fn_set uart_code (set_auto_cr_lf vcom_handle) = Some uart_set_auto_cr_lf"
  "fn_get uart_code (get_auto_cr_lf vcom_handle) = Some uart_get_auto_cr_lf"
  "fn_set uart_code (set_rx_energy_mode_restriction vcom_handle) = Some uart_set_rx_energy_mode_restriction"
  "fn_get uart_code (get_rx_energy_mode_restriction vcom_handle) = Some uart_get_rx_energy_mode_restriction"
  "fn_set uart_code (set_read_block vcom_handle) = Some uart_set_read_block"
  "fn_get uart_code (get_read_block vcom_handle) = Some uart_get_read_block"
  "fn_isr_exit uart_code (sleep_on_isr_exit vcom_handle) = Some uart_sleep_on_isr_exit"
  "context (stream vcom_handle) = 0x2100"
  by (simp_all add: load_uart_def vcom_machine_def vcom_handle_def uart_code_def)

lemma handles_update_context [simp]: "handles (update_context a f m) = handles m"
  by (simp add: update_context_def split: option.split)

lemma restriction_cleared:
  "\<not> restriction_asserted a (uart_set_rx_energy_mode_restriction a False m)"
  by (simp add: restriction_asserted_def uart_set_rx_energy_mode_restriction_def
      update_context_def split: option.split)

lemma restriction_deinit:
  "restriction_asserted a (snd (uart_deinit p m)) = restriction_asserted a m"
  by (simp add: uart_deinit_def)

text \<open>
  C9. For a stream object at address \<open>iostream_uart\<close> whose pointers hold functions:
  \<^verbatim>\<open>sl_iostream_uart_deinit\<close> calls the object's \<^verbatim>\<open>deinit\<close> with the address of the
  object itself and returns its status unchanged (with the power manager present, after
  the call that clears the restriction, provided that call leaves the object in place);
  each of the seven accessor wrappers calls its function with
  \<^verbatim>\<open>iostream_uart->stream.context\<close> and returns that function's result unchanged. The
  memory a wrapper leaves is the memory its function left, and the only calls made are
  the ones listed.
\<close>

theorem wrappers_pass_pointer_and_return_result:
  fixes c :: "'d code" and s :: "'d machine"
  assumes "load_uart s iostream_uart = Some h"
    and "fn_status c (deinit h) = Some deinit_fn"
    and "fn_set c (set_auto_cr_lf h) = Some set_crlf_fn"
    and "fn_get c (get_auto_cr_lf h) = Some get_crlf_fn"
    and "fn_set c (set_rx_energy_mode_restriction h) = Some set_em_fn"
    and "fn_get c (get_rx_energy_mode_restriction h) = Some get_em_fn"
    and "fn_set c (set_read_block h) = Some set_block_fn"
    and "fn_get c (get_read_block h) = Some get_block_fn"
    and "fn_isr_exit c (sleep_on_isr_exit h) = Some isr_fn"
  shows
    "sl_iostream_uart_deinit False c iostream_uart s =
       Some (fst (deinit_fn iostream_uart (mem s)),
             s\<lparr>mem := snd (deinit_fn iostream_uart (mem s)),
               calls := calls s @ [Call_ptr (deinit h) iostream_uart]\<rparr>)
     \<and> (handles (set_em_fn (context (stream h)) False (mem s)) iostream_uart = Some h \<longrightarrow>
        sl_iostream_uart_deinit True c iostream_uart s =
          Some (fst (deinit_fn iostream_uart (set_em_fn (context (stream h)) False (mem s))),
                s\<lparr>mem := snd (deinit_fn iostream_uart (set_em_fn (context (stream h)) False (mem s))),
                  calls := calls s @ [Call_ptr_bool (set_rx_energy_mode_restriction h) (context (stream h)) False,
                                      Call_ptr (deinit h) iostream_uart]\<rparr>))
     \<and> sl_iostream_uart_set_auto_cr_lf c iostream_uart on s =
         Some (s\<lparr>mem := set_crlf_fn (context (stream h)) on (mem s),
                 calls := calls s @ [Call_ptr_bool (set_auto_cr_lf h) (context (stream h)) on]\<rparr>)
     \<and> sl_iostream_uart_get_auto_cr_lf c iostream_uart s =
         Some (fst (get_crlf_fn (context (stream h)) (mem s)),
               s\<lparr>mem := snd (get_crlf_fn (context (stream h)) (mem s)),
                 calls := calls s @ [Call_ptr (get_auto_cr_lf h) (context (stream h))]\<rparr>)
     \<and> sl_iostream_uart_set_rx_energy_mode_restriction c iostream_uart on s =
         Some (s\<lparr>mem := set_em_fn (context (stream h)) on (mem s),
                 calls := calls s @ [Call_ptr_bool (set_rx_energy_mode_restriction h) (context (stream h)) on]\<rparr>)
     \<and> sl_iostream_uart_get_rx_energy_mode_restriction c iostream_uart s =
         Some (fst (get_em_fn (context (stream h)) (mem s)),
               s\<lparr>mem := snd (get_em_fn (context (stream h)) (mem s)),
                 calls := calls s @ [Call_ptr (get_rx_energy_mode_restriction h) (context (stream h))]\<rparr>)
     \<and> sl_iostream_uart_set_read_block c iostream_uart on s =
         Some (s\<lparr>mem := set_block_fn (context (stream h)) on (mem s),
                 calls := calls s @ [Call_ptr_bool (set_read_block h) (context (stream h)) on]\<rparr>)
     \<and> sl_iostream_uart_get_read_block c iostream_uart s =
         Some (fst (get_block_fn (context (stream h)) (mem s)),
               s\<lparr>mem := snd (get_block_fn (context (stream h)) (mem s)),
                 calls := calls s @ [Call_ptr (get_read_block h) (context (stream h))]\<rparr>)
     \<and> sl_iostream_uart_sleep_on_isr_exit c iostream_uart s =
         Some (fst (isr_fn (context (stream h)) (mem s)),
               s\<lparr>mem := snd (isr_fn (context (stream h)) (mem s)),
                 calls := calls s @ [Call_ptr (sleep_on_isr_exit h) (context (stream h))]\<rparr>)"
  using assms
  by (simp add: sl_iostream_uart_deinit_def sl_iostream_uart_set_auto_cr_lf_def
      sl_iostream_uart_get_auto_cr_lf_def sl_iostream_uart_set_rx_energy_mode_restriction_def
      sl_iostream_uart_get_rx_energy_mode_restriction_def sl_iostream_uart_set_read_block_def
      sl_iostream_uart_get_read_block_def sl_iostream_uart_sleep_on_isr_exit_def
      invoke_defs load_uart_def)

text \<open>The wrappers on the concrete stream object at 0x2000, whose context is at 0x2100.\<close>

theorem wrappers_witness:
  "sl_iostream_uart_deinit False uart_code 0x2000 vcom_machine =
     Some (0, vcom_machine\<lparr>calls := [Call_ptr 0x1000 0x2000]\<rparr>)
   \<and> sl_iostream_uart_deinit True uart_code 0x2000 vcom_machine =
     Some (0, vcom_machine\<lparr>mem := uart_set_rx_energy_mode_restriction 0x2100 False (mem vcom_machine),
                calls := [Call_ptr_bool 0x1030 0x2100 False, Call_ptr 0x1000 0x2000]\<rparr>)
   \<and> sl_iostream_uart_set_auto_cr_lf uart_code 0x2000 True vcom_machine =
     Some (vcom_machine\<lparr>mem := uart_set_auto_cr_lf 0x2100 True (mem vcom_machine),
             calls := [Call_ptr_bool 0x1010 0x2100 True]\<rparr>)
   \<and> sl_iostream_uart_get_auto_cr_lf uart_code 0x2000 vcom_machine =
     Some (False, vcom_machine\<lparr>calls := [Call_ptr 0x1020 0x2100]\<rparr>)
   \<and> sl_iostream_uart_get_rx_energy_mode_restriction uart_code 0x2000 vcom_machine =
     Some (True, vcom_machine\<lparr>calls := [Call_ptr 0x1040 0x2100]\<rparr>)
   \<and> sl_iostream_uart_get_read_block uart_code 0x2000 vcom_machine =
     Some (False, vcom_machine\<lparr>calls := [Call_ptr 0x1060 0x2100]\<rparr>)
   \<and> sl_iostream_uart_sleep_on_isr_exit uart_code 0x2000 vcom_machine =
     Some (SL_POWER_MANAGER_IGNORE, vcom_machine\<lparr>calls := [Call_ptr 0x1070 0x2100]\<rparr>)"
proof -
  have k: "handles (uart_set_rx_energy_mode_restriction (context (stream vcom_handle)) False
             (mem vcom_machine)) 0x2000 = Some vcom_handle"
    by (simp add: uart_set_rx_energy_mode_restriction_def vcom_machine_def)
  have g: "uart_get_auto_cr_lf 0x2100 (mem vcom_machine) = (False, mem vcom_machine)"
    "uart_get_rx_energy_mode_restriction 0x2100 (mem vcom_machine) = (True, mem vcom_machine)"
    "uart_get_read_block 0x2100 (mem vcom_machine) = (False, mem vcom_machine)"
    "uart_sleep_on_isr_exit 0x2100 (mem vcom_machine) = (SL_POWER_MANAGER_IGNORE, mem vcom_machine)"
    by (simp_all add: uart_get_auto_cr_lf_def uart_get_rx_energy_mode_restriction_def
        uart_get_read_block_def uart_sleep_on_isr_exit_def vcom_machine_def vcom_context_def)
  have v: "calls vcom_machine = []" "deinit vcom_handle = 0x1000"
    "set_auto_cr_lf vcom_handle = 0x1010" "get_auto_cr_lf vcom_handle = 0x1020"
    "set_rx_energy_mode_restriction vcom_handle = 0x1030"
    "get_rx_energy_mode_restriction vcom_handle = 0x1040"
    "set_read_block vcom_handle = 0x1050" "get_read_block vcom_handle = 0x1060"
    "sleep_on_isr_exit vcom_handle = 0x1070"
    by (simp_all add: vcom_machine_def vcom_handle_def)
  show ?thesis
    using wrappers_pass_pointer_and_return_result
      [OF vcom_simps(1) vcom_simps(2) vcom_simps(3) vcom_simps(4) vcom_simps(5)
          vcom_simps(6) vcom_simps(7) vcom_simps(8) vcom_simps(9), where on = True] k
    by (simp add: vcom_simps(10) g v uart_deinit_def)
qed

text \<open>
  C1. With the power manager present, \<^verbatim>\<open>sl_iostream_uart_deinit\<close> on a valid stream
  object makes exactly two calls, in this order: the object's
  \<^verbatim>\<open>set_rx_energy_mode_restriction\<close> with the context and \<^verbatim>\<open>false\<close>, then the object's
  \<^verbatim>\<open>deinit\<close> with the object's address. Let \<open>restricted\<close> say of a memory that the
  stream's restriction is asserted. If the setter called with \<^verbatim>\<open>false\<close> clears it and
  the teardown function does not assert it, then the teardown function is entered with
  the restriction cleared and no restriction is asserted when
  \<^verbatim>\<open>sl_iostream_uart_deinit\<close> returns.
\<close>

theorem deinit_clears_restriction_before_teardown:
  fixes c :: "'d code" and s :: "'d machine" and restricted :: "'d memory \<Rightarrow> bool"
  assumes "load_uart s iostream_uart = Some h"
    and "fn_set c (set_rx_energy_mode_restriction h) = Some set_em_fn"
    and "handles (set_em_fn (context (stream h)) False (mem s)) iostream_uart = Some h1"
    and "fn_status c (deinit h1) = Some deinit_fn"
    and "\<forall>m. \<not> restricted (set_em_fn (context (stream h)) False m)"
    and "\<forall>m. \<not> restricted m \<longrightarrow> \<not> restricted (snd (deinit_fn iostream_uart m))"
  shows
    "\<exists>s'. sl_iostream_uart_deinit True c iostream_uart s =
             Some (fst (deinit_fn iostream_uart (set_em_fn (context (stream h)) False (mem s))), s')
        \<and> calls s' = calls s @
            [Call_ptr_bool (set_rx_energy_mode_restriction h) (context (stream h)) False,
             Call_ptr (deinit h1) iostream_uart]
        \<and> mem s' = snd (deinit_fn iostream_uart (set_em_fn (context (stream h)) False (mem s)))
        \<and> \<not> restricted (set_em_fn (context (stream h)) False (mem s))
        \<and> \<not> restricted (mem s')"
  using assms
  by (simp add: sl_iostream_uart_deinit_def invoke_defs load_uart_def)

text \<open>
  On the concrete stream object the restriction is asserted before the call and
  cleared after it.
\<close>

theorem deinit_clears_restriction_witness:
  "restriction_asserted 0x2100 (mem vcom_machine)
   \<and> (\<exists>s'. sl_iostream_uart_deinit True uart_code 0x2000 vcom_machine = Some (0, s')
        \<and> calls s' = [Call_ptr_bool 0x1030 0x2100 False, Call_ptr 0x1000 0x2000]
        \<and> \<not> restriction_asserted 0x2100 (mem s'))"
proof -
  have a: "restriction_asserted 0x2100 (mem vcom_machine)"
    by (simp add: restriction_asserted_def vcom_machine_def vcom_context_def)
  have k: "handles (uart_set_rx_energy_mode_restriction (context (stream vcom_handle)) False
             (mem vcom_machine)) 0x2000 = Some vcom_handle"
    by (simp add: uart_set_rx_energy_mode_restriction_def vcom_machine_def)
  have "\<exists>s'. sl_iostream_uart_deinit True uart_code 0x2000 vcom_machine =
             Some (fst (uart_deinit 0x2000 (uart_set_rx_energy_mode_restriction (context (stream vcom_handle)) False (mem vcom_machine))), s')
        \<and> calls s' = calls vcom_machine @
            [Call_ptr_bool (set_rx_energy_mode_restriction vcom_handle) (context (stream vcom_handle)) False,
             Call_ptr (deinit vcom_handle) 0x2000]
        \<and> mem s' = snd (uart_deinit 0x2000 (uart_set_rx_energy_mode_restriction (context (stream vcom_handle)) False (mem vcom_machine)))
        \<and> \<not> restriction_asserted 0x2100 (uart_set_rx_energy_mode_restriction (context (stream vcom_handle)) False (mem vcom_machine))
        \<and> \<not> restriction_asserted 0x2100 (mem s')"
    by (rule deinit_clears_restriction_before_teardown
          [where restricted = "restriction_asserted 0x2100", OF vcom_simps(1) vcom_simps(5) k vcom_simps(2)])
       (simp_all add: vcom_simps(10) restriction_cleared restriction_deinit)
  then obtain s' where
    "sl_iostream_uart_deinit True uart_code 0x2000 vcom_machine =
             Some (fst (uart_deinit 0x2000 (uart_set_rx_energy_mode_restriction (context (stream vcom_handle)) False (mem vcom_machine))), s')"
    "calls s' = calls vcom_machine @
            [Call_ptr_bool (set_rx_energy_mode_restriction vcom_handle) (context (stream vcom_handle)) False,
             Call_ptr (deinit vcom_handle) 0x2000]"
    "\<not> restriction_asserted 0x2100 (mem s')"
    by blast
  then have "sl_iostream_uart_deinit True uart_code 0x2000 vcom_machine = Some (0, s')
        \<and> calls s' = [Call_ptr_bool 0x1030 0x2100 False, Call_ptr 0x1000 0x2000]
        \<and> \<not> restriction_asserted 0x2100 (mem s')"
    by (simp add: uart_deinit_def vcom_handle_def vcom_machine_def)
  with a show ?thesis by blast
qed

section \<open>Properties of the receive ring buffer\<close>

lemma map_upd_upt: "w \<notin> set [a..<b] \<Longrightarrow> map (f(w := v)) [a..<b] = map f [a..<b]"
  by (rule map_cong) auto

lemma map_upd_upt_end:
  "r \<le> w \<Longrightarrow> Suc w = e \<Longrightarrow> map (f(w := b)) [r..<e] = map f [r..<w] @ [b]"
  by (auto simp: map_upd_upt)

lemma deposit_step:
  assumes "rx_wf d" and "rx_level d + 1 < rx_buffer_len (uart_context d)"
  shows "rx_wf (dma_deposit b d)"
    and "rx_level (dma_deposit b d) = rx_level d + 1"
    and "fst (rx_copy (dma_deposit b d)) = fst (rx_copy d) @ [b]"
    and "uart_context (dma_deposit b d) = uart_context d"
  using assms
  by (auto simp: rx_wf_def rx_level_def dma_deposit_def rx_copy_def Let_def map_upd_upt map_upd_upt_end
      split: if_splits)

lemma receive_read:
  "rx_wf d \<Longrightarrow> rx_level d + length bs < rx_buffer_len (uart_context d) \<Longrightarrow>
     rx_wf (dma_receive bs d)
     \<and> rx_level (dma_receive bs d) = rx_level d + length bs
     \<and> uart_context (dma_receive bs d) = uart_context d
     \<and> fst (rx_copy (dma_receive bs d)) = fst (rx_copy d) @ bs"
proof (induction bs arbitrary: d)
  case Nil
  then show ?case by simp
next
  case (Cons b bs)
  from Cons.prems have l: "rx_level d + 1 < rx_buffer_len (uart_context d)" by simp
  note st = deposit_step [OF Cons.prems(1) l, of b]
  from Cons.prems st have "rx_level (dma_deposit b d) + length bs < rx_buffer_len (uart_context (dma_deposit b d))"
    by simp
  from Cons.IH [OF st(1) this] st show ?case by simp
qed


lemma read_length: "rx_wf d \<Longrightarrow> length (fst (rx_copy d)) = rx_level d"
  by (auto simp: rx_wf_def rx_level_def rx_copy_def Let_def)

lemma read_empties:
  "rx_wf d \<Longrightarrow> rx_wf (snd (rx_copy d)) \<and> rx_level (snd (rx_copy d)) = 0
     \<and> fst (rx_copy (snd (rx_copy d))) = []
     \<and> rx_read_ptr (uart_context (snd (rx_copy d))) = dma_dst d
     \<and> dma_dst (snd (rx_copy d)) = dma_dst d
     \<and> rx_buffer_len (uart_context (snd (rx_copy d))) = rx_buffer_len (uart_context d)
     \<and> rx_buffer (uart_context (snd (rx_copy d))) = rx_buffer (uart_context d)"
  by (simp add: rx_wf_def rx_level_def rx_copy_def Let_def)

lemma read_cursor_mod:
  assumes "rx_wf d"
  shows "dma_dst d = rx_buffer (uart_context d)
           + (rx_read_ptr (uart_context d) - rx_buffer (uart_context d) + rx_level d)
               mod rx_buffer_len (uart_context d)"
proof -
  define base n r w where "base = rx_buffer (uart_context d)"
    and "n = rx_buffer_len (uart_context d)" and "r = rx_read_ptr (uart_context d)"
    and "w = dma_dst d"
  from assms have b: "base \<le> r" "r < base + n" "base \<le> w" "w < base + n"
    by (simp_all add: rx_wf_def Let_def base_def n_def r_def w_def)
  have l: "rx_level d = (if r \<le> w then w - r else n - (r - w))"
    by (simp add: rx_level_def n_def r_def w_def)
  have "(r - base + rx_level d) mod n = w - base"
  proof (cases "r \<le> w")
    case True
    with b l have "r - base + rx_level d = w - base" by simp
    moreover from b have "w - base < n" by simp
    ultimately show ?thesis by simp
  next
    case False
    with b l have "r - base + rx_level d = n + (w - base)" by simp
    moreover from b have "w - base < n" by simp
    ultimately show ?thesis by simp
  qed
  with b show ?thesis by (simp add: base_def n_def r_def w_def)
qed

lemma read_drained: "rx_wf d \<Longrightarrow> rx_copy (snd (rx_copy d)) = ([], snd (rx_copy d))"
  by (simp add: rx_copy_def Let_def)

text \<open>
  C2. Take a receive buffer whose cursors lie in the buffer, and let the bytes \<open>bs\<close>
  arrive while the fill level stays below the buffer length (no overflow). Let the read
  that follows not be one that suspends: blocking mode is off, or at least one byte is
  buffered. That single read returns the bytes that were already buffered followed by
  \<open>bs\<close>, in arrival order: as many bytes as were buffered and arrived, none lost, and
  exactly \<open>bs\<close> when nothing was buffered before. It leaves the read cursor at the fill
  position, which is the old cursor advanced by the number of bytes returned, modulo the
  buffer length, and nothing is left buffered: the read after it returns nothing in
  non-blocking mode and suspends in blocking mode, so no byte is returned twice.
\<close>

theorem read_returns_received_bytes:
  assumes "rx_wf d" and "rx_level d + length bs < rx_buffer_len (uart_context d)"
    and "\<not> block (uart_context d) \<or> 0 < rx_level d + length bs"
  shows "\<exists>out d'. uart_read (dma_receive bs d) = Some (out, d')
     \<and> out = fst (rx_copy d) @ bs
     \<and> length out = rx_level d + length bs
     \<and> (rx_level d = 0 \<longrightarrow> out = bs)
     \<and> rx_read_ptr (uart_context d') = dma_dst (dma_receive bs d)
     \<and> rx_read_ptr (uart_context d') =
         rx_buffer (uart_context d)
           + (rx_read_ptr (uart_context d) - rx_buffer (uart_context d) + length out)
               mod rx_buffer_len (uart_context d)
     \<and> rx_level d' = 0
     \<and> uart_read d' = (if block (uart_context d) then None else Some ([], d'))"
proof -
  let ?e = "dma_receive bs d"
  note r = receive_read [OF assms(1) assms(2)]
  from r have wf: "rx_wf ?e" by simp
  from r have lv: "rx_level ?e = rx_level d + length bs" by simp
  from r have cx: "uart_context ?e = uart_context d" by simp
  note e = read_empties [OF wf]
  have 0: "uart_read ?e = Some (rx_copy ?e)"
    using assms(3) lv cx by (auto simp: uart_read_def)
  have 1: "fst (rx_copy ?e) = fst (rx_copy d) @ bs" using r by simp
  have 2: "length (fst (rx_copy ?e)) = rx_level d + length bs"
    using read_length [OF wf] lv by simp
  have 3: "rx_level d = 0 \<longrightarrow> fst (rx_copy ?e) = bs"
  proof
    assume "rx_level d = 0"
    with read_length [OF assms(1)] have "fst (rx_copy d) = []" by simp
    with 1 show "fst (rx_copy ?e) = bs" by simp
  qed
  have 4: "rx_read_ptr (uart_context (snd (rx_copy ?e))) = dma_dst ?e"
    using e by simp
  have 5: "dma_dst ?e =
         rx_buffer (uart_context d)
           + (rx_read_ptr (uart_context d) - rx_buffer (uart_context d)
                + length (fst (rx_copy ?e))) mod rx_buffer_len (uart_context d)"
    using read_cursor_mod [OF wf] cx lv 2 by simp
  have 6: "rx_level (snd (rx_copy ?e)) = 0" using e by simp
  have b: "block (uart_context (snd (rx_copy ?e))) = block (uart_context d)"
    using cx by (simp add: rx_copy_def Let_def)
  have 7: "uart_read (snd (rx_copy ?e)) =
      (if block (uart_context d) then None else Some ([], snd (rx_copy ?e)))"
    using 6 b read_drained [OF wf] by (simp add: uart_read_def)
  have "uart_read ?e = Some (fst (rx_copy ?e), snd (rx_copy ?e))" using 0 by simp
  with 1 2 3 4 5 6 7 show ?thesis by (metis (no_types, lifting))
qed

text \<open>
  Four bytes arrive at a drained buffer two bytes before its end: the read returns them
  in order and the cursor wraps to the third byte of the buffer.
\<close>

theorem read_returns_received_bytes_witness:
  "rx_wf vcom_device
   \<and> rx_level vcom_device + length [0x11, 0x41, 0x13, 0x42 :: uint8_t]
       < rx_buffer_len (uart_context vcom_device)
   \<and> (\<exists>d'. uart_read (dma_receive [0x11, 0x41, 0x13, 0x42] vcom_device)
              = Some ([0x11, 0x41, 0x13, 0x42], d')
          \<and> rx_read_ptr (uart_context d') = 0x3002
          \<and> uart_read d' = Some ([], d'))"
proof -
  have w: "rx_wf vcom_device"
    by (simp add: rx_wf_def vcom_device_def vcom_context_def)
  have l: "rx_level vcom_device + length [0x11, 0x41, 0x13, 0x42 :: uint8_t]
       < rx_buffer_len (uart_context vcom_device)"
    by (simp add: rx_level_def vcom_device_def vcom_context_def)
  have n: "\<not> block (uart_context vcom_device)"
    by (simp add: vcom_device_def vcom_context_def)
  then have h: "\<not> block (uart_context vcom_device)
      \<or> 0 < rx_level vcom_device + length [0x11, 0x41, 0x13, 0x42 :: uint8_t]"
    by (rule disjI1)
  have e: "fst (rx_copy vcom_device) = []"
    by (simp add: rx_copy_def vcom_device_def)
  have c: "rx_buffer (uart_context vcom_device) = 0x3000"
    "rx_read_ptr (uart_context vcom_device) = 0x300E"
    "rx_buffer_len (uart_context vcom_device) = 16"
    by (simp_all add: vcom_device_def vcom_context_def)
  from read_returns_received_bytes [OF w l h]
  obtain out d' where
    r: "uart_read (dma_receive [0x11, 0x41, 0x13, 0x42] vcom_device) = Some (out, d')"
    and o: "out = fst (rx_copy vcom_device) @ [0x11, 0x41, 0x13, 0x42]"
    and p: "rx_read_ptr (uart_context d') =
         rx_buffer (uart_context vcom_device)
           + (rx_read_ptr (uart_context vcom_device) - rx_buffer (uart_context vcom_device)
                + length out) mod rx_buffer_len (uart_context vcom_device)"
    and q: "uart_read d' = (if block (uart_context vcom_device) then None else Some ([], d'))"
    by blast
  from o have o': "out = [0x11, 0x41, 0x13, 0x42]" by (simp only: e append_Nil)
  from p have "rx_read_ptr (uart_context d') = 0x3000 + (0x300E - 0x3000 + length out) mod 16"
    by (simp only: c)
  then have p': "rx_read_ptr (uart_context d') = 0x3002" by (simp add: o')
  from q n have q': "uart_read d' = Some ([], d')" by simp
  from r o' have "uart_read (dma_receive [0x11, 0x41, 0x13, 0x42] vcom_device)
              = Some ([0x11, 0x41, 0x13, 0x42], d')" by simp
  with w l p' q' show ?thesis by blast
qed

section \<open>Properties of the blocking mode of read\<close>

lemma set_read_block_context:
  "driver m a = Some x \<Longrightarrow> driver (uart_set_read_block a on m) a = Some (x\<lparr>block := on\<rparr>)"
  by (simp add: uart_set_read_block_def update_context_def)

lemma deposit_on_empty:
  assumes "rx_wf d" and "1 < rx_buffer_len (uart_context d)" and "rx_level d = 0"
  shows "rx_level (dma_deposit b d) = 1"
    and "fst (rx_copy (dma_deposit b d)) = [b]"
    and "uart_context (dma_deposit b d) = uart_context d"
proof -
  from assms have l: "rx_level d + 1 < rx_buffer_len (uart_context d)" by simp
  note st = deposit_step [OF assms(1) l, of b]
  from st(2) assms(3) show "rx_level (dma_deposit b d) = 1" by simp
  from read_length [OF assms(1)] assms(3) have "fst (rx_copy d) = []" by simp
  with st(3) show "fst (rx_copy (dma_deposit b d)) = [b]" by simp
  from st(4) show "uart_context (dma_deposit b d) = uart_context d" .
qed

lemma read_after_first_byte:
  assumes "rx_wf d" and "1 < rx_buffer_len (uart_context d)" and "rx_level d = 0"
  shows "uart_read (dma_deposit b d) = Some ([b], snd (rx_copy (dma_deposit b d)))"
proof -
  note e = deposit_on_empty [OF assms, of b]
  from e(1) have "uart_read (dma_deposit b d) = Some (rx_copy (dma_deposit b d))"
    by (simp add: uart_read_def)
  with e(2) show ?thesis by (simp add: prod_eq_iff)
qed

lemma read_wait_nonblocking:
  "uart_read d = Some r \<Longrightarrow> uart_read_wait bs d = Some r"
  by (cases bs) simp_all

text \<open>
  C8. Let \<^verbatim>\<open>sl_iostream_uart_set_read_block\<close> be called with the flag \<open>on\<close> on a stream
  object whose pointer holds the driver's setter, and let \<open>d\<close> be the UART on the
  object's context as the call leaves it, with its cursors in a buffer of at least two
  bytes. The call returns and the context in memory is the one of \<open>d\<close>. With the flag
  on and no byte available, a read does not return as long as no byte is deposited, it
  returns once the first byte arrives, and what it returns then has at least one byte
  (that byte). With the flag on and bytes available, and with the flag off in every case,
  the read returns at once with as many bytes as are buffered, possibly none, whatever
  arrives later.
\<close>

theorem blocking_read:
  assumes "load_uart s iostream_uart = Some h"
    and "fn_set uart_code (set_read_block h) = Some uart_set_read_block"
    and "driver (mem s) (context (stream h)) = Some x"
    and "uart_context d = x\<lparr>block := on\<rparr>"
    and "rx_wf d" and "1 < rx_buffer_len (uart_context d)"
  shows "\<exists>s1. sl_iostream_uart_set_read_block uart_code iostream_uart on s = Some s1
     \<and> driver (mem s1) (context (stream h)) = Some (uart_context d)
     \<and> (on \<and> rx_level d = 0 \<longrightarrow>
          uart_read d = None \<and> uart_read_wait [] d = None
          \<and> (\<exists>d'. uart_read_wait (b # bs) d = Some ([b], d'))
          \<and> (\<exists>out d'. uart_read (dma_deposit b d) = Some (out, d') \<and> 0 < length out))
     \<and> (on \<and> 0 < rx_level d \<longrightarrow>
          (\<exists>out d'. uart_read d = Some (out, d') \<and> length out = rx_level d))
     \<and> (\<not> on \<longrightarrow>
          (\<exists>out d'. uart_read d = Some (out, d') \<and> length out = rx_level d
             \<and> uart_read_wait bs d = Some (out, d')))"
proof -
  have bl: "block (uart_context d) = on" using assms(4) by simp
  have 1: "sl_iostream_uart_set_read_block uart_code iostream_uart on s =
      Some (s\<lparr>mem := uart_set_read_block (context (stream h)) on (mem s),
              calls := calls s @ [Call_ptr_bool (set_read_block h) (context (stream h)) on]\<rparr>)"
    using assms(1) assms(2) by (simp add: sl_iostream_uart_set_read_block_def invoke_set_def)
  have 2: "driver (uart_set_read_block (context (stream h)) on (mem s)) (context (stream h))
      = Some (uart_context d)"
    using set_read_block_context [OF assms(3)] assms(4) by simp
  have 3: "on \<and> rx_level d = 0 \<longrightarrow>
          uart_read d = None \<and> uart_read_wait [] d = None
          \<and> (\<exists>d'. uart_read_wait (b # bs) d = Some ([b], d'))
          \<and> (\<exists>out d'. uart_read (dma_deposit b d) = Some (out, d') \<and> 0 < length out)"
  proof
    assume a: "on \<and> rx_level d = 0"
    then have n: "uart_read d = None" using bl by (simp add: uart_read_def)
    from a have z: "rx_level d = 0" by simp
    note f = read_after_first_byte [OF assms(5) assms(6) z, of b]
    from n f have "uart_read_wait (b # bs) d = Some ([b], snd (rx_copy (dma_deposit b d)))"
      by (simp add: read_wait_nonblocking)
    with n f show "uart_read d = None \<and> uart_read_wait [] d = None
          \<and> (\<exists>d'. uart_read_wait (b # bs) d = Some ([b], d'))
          \<and> (\<exists>out d'. uart_read (dma_deposit b d) = Some (out, d') \<and> 0 < length out)"
      by auto
  qed
  have 4: "on \<and> 0 < rx_level d \<longrightarrow>
          (\<exists>out d'. uart_read d = Some (out, d') \<and> length out = rx_level d)"
    using read_length [OF assms(5)] by (auto simp: uart_read_def prod_eq_iff)
  have 5: "\<not> on \<longrightarrow>
          (\<exists>out d'. uart_read d = Some (out, d') \<and> length out = rx_level d
             \<and> uart_read_wait bs d = Some (out, d'))"
  proof
    assume "\<not> on"
    with bl have r: "uart_read d = Some (fst (rx_copy d), snd (rx_copy d))"
      by (simp add: uart_read_def)
    from read_wait_nonblocking [OF r] r read_length [OF assms(5)]
    show "\<exists>out d'. uart_read d = Some (out, d') \<and> length out = rx_level d
             \<and> uart_read_wait bs d = Some (out, d')"
      by blast
  qed
  from 1 2 have "sl_iostream_uart_set_read_block uart_code iostream_uart on s =
      Some (s\<lparr>mem := uart_set_read_block (context (stream h)) on (mem s),
              calls := calls s @ [Call_ptr_bool (set_read_block h) (context (stream h)) on]\<rparr>)
     \<and> driver (mem (s\<lparr>mem := uart_set_read_block (context (stream h)) on (mem s),
              calls := calls s @ [Call_ptr_bool (set_read_block h) (context (stream h)) on]\<rparr>))
          (context (stream h)) = Some (uart_context d)"
    by simp
  with 3 4 5 show ?thesis by blast
qed

text \<open>
  On the concrete stream object, with an empty buffer: in blocking mode the read is
  suspended and returns the first of two arriving bytes; in non-blocking mode it returns
  nothing at once.
\<close>

theorem blocking_read_witness:
  "(\<exists>s1. sl_iostream_uart_set_read_block uart_code 0x2000 True vcom_machine = Some s1
       \<and> driver (mem s1) 0x2100 = Some (uart_context (vcom_uart True)))
   \<and> uart_read (vcom_uart True) = None
   \<and> uart_read_wait [] (vcom_uart True) = None
   \<and> (\<exists>d'. uart_read_wait [0x41, 0x42] (vcom_uart True) = Some ([0x41], d'))
   \<and> (\<exists>s1. sl_iostream_uart_set_read_block uart_code 0x2000 False vcom_machine = Some s1
       \<and> driver (mem s1) 0x2100 = Some (uart_context (vcom_uart False)))
   \<and> (\<exists>d'. uart_read (vcom_uart False) = Some ([], d'))"
proof -
  have x: "driver (mem vcom_machine) (context (stream vcom_handle)) = Some vcom_context"
    by (simp add: vcom_machine_def vcom_handle_def)
  have c: "uart_context (vcom_uart on) = vcom_context\<lparr>block := on\<rparr>" for on
    by (simp add: vcom_uart_def)
  have w: "rx_wf (vcom_uart on)" for on
    by (simp add: rx_wf_def vcom_uart_def vcom_context_def)
  have n: "1 < rx_buffer_len (uart_context (vcom_uart on))" for on
    by (simp add: vcom_uart_def vcom_context_def)
  have z: "rx_level (vcom_uart on) = 0" for on
    by (simp add: rx_level_def vcom_uart_def vcom_context_def)
  note t = blocking_read [where on = True and b = "0x41" and bs = "[0x42]",
      OF vcom_simps(1) vcom_simps(7) x c w n]
  note f = blocking_read [where on = False and bs = "[]",
      OF vcom_simps(1) vcom_simps(7) x c w n]
  from t z [of True] have 1:
    "(\<exists>s1. sl_iostream_uart_set_read_block uart_code 0x2000 True vcom_machine = Some s1
       \<and> driver (mem s1) 0x2100 = Some (uart_context (vcom_uart True)))
     \<and> uart_read (vcom_uart True) = None
     \<and> uart_read_wait [] (vcom_uart True) = None
     \<and> (\<exists>d'. uart_read_wait [0x41, 0x42] (vcom_uart True) = Some ([0x41], d'))"
    by (simp only: vcom_simps(10)) blast
  from f z [of False] have 2:
    "(\<exists>s1. sl_iostream_uart_set_read_block uart_code 0x2000 False vcom_machine = Some s1
       \<and> driver (mem s1) 0x2100 = Some (uart_context (vcom_uart False)))
     \<and> (\<exists>d'. uart_read (vcom_uart False) = Some ([], d'))"
    by (simp only: vcom_simps(10)) auto
  from 1 2 show ?thesis by blast
qed

section \<open>Properties of the transmit path\<close>

lemma write_loop_crlf:
  "uart_write_loop True bs d = d\<lparr>tx_wire := tx_wire d @ expand_lf bs\<rparr>"
  by (induction bs arbitrary: d) (simp_all add: uart_tx_def)

lemma expand_lf_append: "expand_lf (xs @ ys) = expand_lf xs @ expand_lf ys"
  by (induction xs) simp_all

lemma expand_lf_preceded:
  "i < length (expand_lf bs) \<Longrightarrow> expand_lf bs ! i = char_LF \<Longrightarrow>
     0 < i \<and> expand_lf bs ! (i - 1) = char_CR"
proof (induction bs arbitrary: i rule: rev_induct)
  case Nil
  then show ?case by simp
next
  case (snoc b bs)
  then show ?case
    by (auto simp: expand_lf_append nth_append less_Suc_eq char_LF_def char_CR_def
        split: if_splits)
qed

lemma expand_lf_length: "length (expand_lf bs) = length bs + count_list bs char_LF"
  by (induction bs) simp_all

lemma expand_lf_count_cr:
  "count_list (expand_lf bs) char_CR = count_list bs char_CR + count_list bs char_LF"
  by (induction bs) (simp_all add: char_LF_def char_CR_def)

lemma expand_lf_count_lf: "count_list (expand_lf bs) char_LF = count_list bs char_LF"
  by (induction bs) (simp_all add: char_LF_def char_CR_def)

text \<open>
  C4. With automatic conversion on (and transmission not stopped by the peer), a write of
  the bytes \<open>bs\<close> hands to the transmitter the expansion of \<open>bs\<close>, after what was sent
  before. In the bytes sent, every line feed has a carriage return immediately before it.
  The output is longer than the input by one byte per line feed of the input, it has as
  many line feeds as the input, and its carriage returns are those of the input and one
  more per line feed: the carriage return before a line feed is an added byte, not one of
  the input.
\<close>

theorem auto_crlf_write:
  assumes "lf_to_crlf (uart_context d)"
    and "\<not> sw_flow_control (uart_context d) \<or> remote_xon (uart_context d)"
  shows "\<exists>out. uart_write bs d = Some (d\<lparr>tx_wire := tx_wire d @ out\<rparr>)
     \<and> out = expand_lf bs
     \<and> (\<forall>i<length out. out ! i = char_LF \<longrightarrow> 0 < i \<and> out ! (i - 1) = char_CR)
     \<and> length out = length bs + count_list bs char_LF
     \<and> count_list out char_LF = count_list bs char_LF
     \<and> count_list out char_CR = count_list bs char_CR + count_list bs char_LF"
proof -
  have "uart_write bs d = Some (d\<lparr>tx_wire := tx_wire d @ expand_lf bs\<rparr>)"
    using assms by (auto simp: uart_write_def write_loop_crlf)
  moreover have "\<forall>i<length (expand_lf bs).
      expand_lf bs ! i = char_LF \<longrightarrow> 0 < i \<and> expand_lf bs ! (i - 1) = char_CR"
    using expand_lf_preceded by blast
  ultimately show ?thesis
    by (simp add: expand_lf_length expand_lf_count_lf expand_lf_count_cr)
qed

text \<open>
  Writing "A", line feed, carriage return, line feed sends "A", carriage return, line
  feed, carriage return, carriage return, line feed.
\<close>

theorem auto_crlf_write_witness:
  "lf_to_crlf (uart_context vcom_device)
   \<and> uart_write [0x41, 0x0A, 0x0D, 0x0A] vcom_device =
       Some (vcom_device\<lparr>tx_wire := [0x41, 0x0D, 0x0A, 0x0D, 0x0D, 0x0A]\<rparr>)"
proof -
  have a: "lf_to_crlf (uart_context vcom_device)"
    by (simp add: vcom_device_def)
  have b: "\<not> sw_flow_control (uart_context vcom_device) \<or> remote_xon (uart_context vcom_device)"
    by (simp add: vcom_device_def vcom_context_def)
  have t: "tx_wire vcom_device = []"
    by (simp add: vcom_device_def)
  from auto_crlf_write [OF a b, of "[0x41, 0x0A, 0x0D, 0x0A]"] a t show ?thesis
    by (auto simp: char_LF_def char_CR_def)
qed

end
